theory Spec2Isabelle
  imports Complex_Main "HOL-Library.Sublist"
begin

section \<open>JavaScript values used by the dashboard\<close>

text \<open>
  A JavaScript number is modelled as an exact rational, extended with the two infinities
  and NaN. Addition, subtraction, multiplication and division follow the IEEE rules for
  the special values (a nonzero number divided by zero is an infinity, zero divided by
  zero is NaN). Rounding, overflow of finite results and the sign of zero are not
  modelled: finite arithmetic is exact. Every divisor in the program is the result of a
  \<open>reduce\<close> that starts from the literal \<open>0\<close>, which is never the negative zero.
  Two numbers are equal when they are the same value; NaN is the same value as NaN.
  Binary64 addition, with its rounding, is \<open>double_add\<close> further down; it is used
  where a property depends on the rounding.
\<close>

datatype number = Fin rat | PosInf | NegInf | NaN

instantiation number :: comm_monoid_add
begin

definition zero_number :: number where
  "zero_number = Fin 0"

fun plus_number :: "number \<Rightarrow> number \<Rightarrow> number" where
  "plus_number NaN _ = NaN"
| "plus_number _ NaN = NaN"
| "plus_number (Fin a) (Fin b) = Fin (a + b)"
| "plus_number PosInf NegInf = NaN"
| "plus_number NegInf PosInf = NaN"
| "plus_number PosInf _ = PosInf"
| "plus_number _ PosInf = PosInf"
| "plus_number NegInf _ = NegInf"
| "plus_number _ NegInf = NegInf"

instance
proof
  fix u v w :: number
  show "0 + u = u"
    by (cases u) (simp_all add: zero_number_def)
  show "u + v = v + u"
    by (cases u; cases v) simp_all
  show "u + v + w = u + (v + w)"
    by (cases u; cases v; cases w) simp_all
qed

end

fun js_neg :: "number \<Rightarrow> number" where
  "js_neg (Fin a) = Fin (- a)"
| "js_neg PosInf = NegInf"
| "js_neg NegInf = PosInf"
| "js_neg NaN = NaN"

definition js_sub :: "number \<Rightarrow> number \<Rightarrow> number" where
  "js_sub a b = a + js_neg b"

fun js_mul :: "number \<Rightarrow> number \<Rightarrow> number" where
  "js_mul NaN _ = NaN"
| "js_mul _ NaN = NaN"
| "js_mul (Fin a) (Fin b) = Fin (a * b)"
| "js_mul (Fin a) PosInf = (if a = 0 then NaN else if 0 < a then PosInf else NegInf)"
| "js_mul (Fin a) NegInf = (if a = 0 then NaN else if 0 < a then NegInf else PosInf)"
| "js_mul PosInf (Fin b) = (if b = 0 then NaN else if 0 < b then PosInf else NegInf)"
| "js_mul NegInf (Fin b) = (if b = 0 then NaN else if 0 < b then NegInf else PosInf)"
| "js_mul PosInf PosInf = PosInf"
| "js_mul PosInf NegInf = NegInf"
| "js_mul NegInf PosInf = NegInf"
| "js_mul NegInf NegInf = PosInf"

fun js_div :: "number \<Rightarrow> number \<Rightarrow> number" where
  "js_div NaN _ = NaN"
| "js_div _ NaN = NaN"
| "js_div (Fin a) (Fin b) =
     (if b = 0 then (if a = 0 then NaN else if 0 < a then PosInf else NegInf)
      else Fin (a / b))"
| "js_div (Fin a) PosInf = Fin 0"
| "js_div (Fin a) NegInf = Fin 0"
| "js_div PosInf (Fin b) = (if 0 \<le> b then PosInf else NegInf)"
| "js_div NegInf (Fin b) = (if 0 \<le> b then NegInf else PosInf)"
| "js_div PosInf PosInf = NaN"
| "js_div PosInf NegInf = NaN"
| "js_div NegInf PosInf = NaN"
| "js_div NegInf NegInf = NaN"

text \<open>
  Strings are lists of characters. \<open>s.split(sep)\<close> with a one-character separator
  always returns at least one piece; \<open>[0]\<close> is its first piece and \<open>pop()\<close> its last.
\<close>

fun js_split :: "char \<Rightarrow> string \<Rightarrow> string list" where
  "js_split sep [] = [[]]"
| "js_split sep (c # cs) =
     (if c = sep then [] # js_split sep cs
      else (c # hd (js_split sep cs)) # tl (js_split sep cs))"

definition startsWith :: "string \<Rightarrow> string \<Rightarrow> bool" where
  "startsWith s p = (take (length p) s = p)"

text \<open>\<open>toLowerCase\<close> on the ASCII letters; other characters are left as they are.\<close>

definition toLowerCase_char :: "char \<Rightarrow> char" where
  "toLowerCase_char c =
     (case map_of (zip ''ABCDEFGHIJKLMNOPQRSTUVWXYZ'' ''abcdefghijklmnopqrstuvwxyz'') c of
        Some l \<Rightarrow> l
      | None \<Rightarrow> c)"

definition toLowerCase :: "string \<Rightarrow> string" where
  "toLowerCase s = map toLowerCase_char s"

text \<open>
  A JavaScript \<open>Set\<close> keeps its elements in insertion order; \<open>add\<close> of an element
  already present changes nothing. \<open>[...new Set(xs)]\<close> is the list of elements in that
  order.
\<close>

definition Set_add :: "'a list \<Rightarrow> 'a \<Rightarrow> 'a list" where
  "Set_add s v = (if v \<in> set s then s else s @ [v])"

definition new_Set :: "'a list \<Rightarrow> 'a list" where
  "new_Set xs = foldl Set_add [] xs"

text \<open>Reading an array at an index: \<open>undefined\<close> (here \<open>None\<close>) outside the array.\<close>

definition at_index :: "'a list \<Rightarrow> nat \<Rightarrow> 'a option" where
  "at_index xs i = (if i < length xs then Some (xs ! i) else None)"

section \<open>The aggregation pipeline (\<open>createChartData\<close> in App.jsx)\<close>

text \<open>
  A row is one parsed record. The pipeline reads the four columns below. As in the
  specification's data model, \<open>Date\<close> and \<open>Product Name\<close> are strings and
  \<open>Total Revenue\<close> and \<open>Quantity Sold\<close> are numbers (the cells of a spreadsheet;
  the pipeline itself converts nothing). On such rows no step of \<open>createChartData\<close>
  can throw: \<open>map\<close>, \<open>filter\<close> and \<open>reduce\<close> with a start value are defined on
  every array, \<open>split\<close> and \<open>startsWith\<close> on every string, and arithmetic on every
  pair of numbers.
\<close>

record row =
  Date :: string
  Product_Name :: string
  Total_Revenue :: number
  Quantity_Sold :: number

record point =
  point_x :: number
  point_y :: number

text \<open>
  One entry of a chart's \<open>datasets\<close> array. The styling keys differ from chart to
  chart; a key that an entry does not have is \<open>None\<close>.
\<close>

record 'a dataset =
  label :: string
  data :: "'a list"
  fill :: "bool option"
  borderColor :: "string option"
  tension :: "number option"
  backgroundColor :: "string option"
  borderWidth :: "number option"

text \<open>A chart object; \<open>labels\<close> is \<open>None\<close> when the object has no such key.\<close>

record 'a chart =
  labels :: "string list option"
  datasets :: "'a dataset list"

record charts =
  revenueOverTime :: "number chart"
  productRevenueChart :: "number chart"
  quantitySoldChart :: "number chart"
  averageRevenueChart :: "number chart"
  scatterPlotData :: "point chart"
  monthlyGrowthChart :: "number chart"

definition dates :: "row list \<Rightarrow> string list" where
  "dates rows = map (\<lambda>item. Date item) rows"

definition totalRevenue :: "row list \<Rightarrow> number list" where
  "totalRevenue rows = map (\<lambda>item. Total_Revenue item) rows"

definition products :: "row list \<Rightarrow> string list" where
  "products rows = new_Set (map (\<lambda>item. Product_Name item) rows)"

definition quantities :: "row list \<Rightarrow> number list" where
  "quantities rows = map (\<lambda>item. Quantity_Sold item) rows"

definition averageRevenue :: "row list \<Rightarrow> number list" where
  "averageRevenue rows = map (\<lambda>product.
     let productData = filter (\<lambda>item. Product_Name item = product) rows;
         totalRevenue = foldl (\<lambda>sum item. sum + Total_Revenue item) 0 productData;
         totalQuantity = foldl (\<lambda>sum item. sum + Quantity_Sold item) 0 productData
     in js_div totalRevenue totalQuantity) (products rows)"

definition revenueVsQuantity :: "row list \<Rightarrow> point list" where
  "revenueVsQuantity rows = map (\<lambda>product.
     let productData = filter (\<lambda>item. Product_Name item = product) rows;
         totalRevenue = foldl (\<lambda>sum item. sum + Total_Revenue item) 0 productData;
         totalQuantity = foldl (\<lambda>sum item. sum + Quantity_Sold item) 0 productData
     in \<lparr>point_x = totalQuantity, point_y = totalRevenue\<rparr>) (products rows)"

definition months :: "row list \<Rightarrow> string list" where
  "months rows = new_Set (map (\<lambda>date. hd (js_split CHR ''/'' date) @ ''/2023'') (dates rows))"

definition monthlyRevenue :: "row list \<Rightarrow> number list" where
  "monthlyRevenue rows = map (\<lambda>month.
     foldl (\<lambda>sum item. sum + Total_Revenue item) 0
       (filter (\<lambda>item. startsWith (Date item) month) rows)) (months rows)"

text \<open>
  \<open>monthlyRevenue.map((revenue, index, arr) => ...)\<close>: the callback sees the element,
  its index and the array itself. For \<open>index > 0\<close> the read \<open>arr[index - 1]\<close> is inside
  the array.
\<close>

definition growth :: "number list \<Rightarrow> number list" where
  "growth arr = map (\<lambda>index.
     if index = 0 then 0
     else js_mul (js_div (js_sub (arr ! index) (arr ! (index - 1))) (arr ! (index - 1))) (Fin 100))
     [0..<length arr]"

definition monthlyGrowth :: "row list \<Rightarrow> number list" where
  "monthlyGrowth rows = growth (monthlyRevenue rows)"

definition createChartData :: "row list \<Rightarrow> charts" where
  "createChartData rows =
    \<lparr>revenueOverTime =
       \<lparr>labels = Some (dates rows),
        datasets = [\<lparr>label = ''Revenue Over Time'', data = totalRevenue rows,
          fill = Some False, borderColor = Some ''#00bcd4'', tension = Some (Fin (1 / 10)),
          backgroundColor = None, borderWidth = None\<rparr>]\<rparr>,
     productRevenueChart =
       \<lparr>labels = Some (products rows),
        datasets = [\<lparr>label = ''Product-Wise Revenue'',
          data = map (\<lambda>product.
            foldl (\<lambda>sum item. sum + Total_Revenue item) 0
              (filter (\<lambda>item. Product_Name item = product) rows)) (products rows),
          fill = None, borderColor = None, tension = None,
          backgroundColor = Some ''#00bcd4'', borderWidth = None\<rparr>]\<rparr>,
     quantitySoldChart =
       \<lparr>labels = Some (products rows),
        datasets = [\<lparr>label = ''Quantity Sold'',
          data = map (\<lambda>product.
            foldl (\<lambda>sum item. sum + Quantity_Sold item) 0
              (filter (\<lambda>item. Product_Name item = product) rows)) (products rows),
          fill = None, borderColor = None, tension = None,
          backgroundColor = Some ''#ff9800'', borderWidth = None\<rparr>]\<rparr>,
     averageRevenueChart =
       \<lparr>labels = Some (products rows),
        datasets = [\<lparr>label = ''Average Revenue per Product'', data = averageRevenue rows,
          fill = None, borderColor = None, tension = None,
          backgroundColor = Some ''#4caf50'', borderWidth = None\<rparr>]\<rparr>,
     scatterPlotData =
       \<lparr>labels = None,
        datasets = [\<lparr>label = ''Revenue vs Quantity Sold'', data = revenueVsQuantity rows,
          fill = None, borderColor = Some ''#9c27b0'', tension = None,
          backgroundColor = Some ''#9c27b0'', borderWidth = Some (Fin 1)\<rparr>]\<rparr>,
     monthlyGrowthChart =
       \<lparr>labels = Some (months rows),
        datasets = [\<lparr>label = ''Monthly Revenue Growth (%)'', data = monthlyGrowth rows,
          fill = Some False, borderColor = Some ''#f44336'', tension = Some (Fin (1 / 10)),
          backgroundColor = None, borderWidth = None\<rparr>]\<rparr>\<rparr>"

text \<open>The value series of a chart: the \<open>data\<close> of its one dataset.\<close>

definition chart_values :: "'a chart \<Rightarrow> 'a list" where
  "chart_values c = concat (map data (datasets c))"

subsection \<open>Rows as the parsers deliver them\<close>










subsection \<open>Addition as the machine does it\<close>

text \<open>
  The additions above are exact. JavaScript adds binary64 numbers: the exact sum is
  rounded to the nearest number of the form \<open>m * 2 ^ e\<close> with \<open>|m| \<le> 2 ^ 53\<close> and
  \<open>- 1074 \<le> e\<close>, a tie going to the even \<open>m\<close>, and a result of magnitude
  \<open>2 ^ 1024\<close> or more is an infinity. Where a property depends on that rounding, the
  reductions are taken with \<open>double_add\<close> in place of the exact sum.

  \<open>bit_length n\<close> is the number of binary digits of \<open>n\<close>, and \<open>floor_log2 x\<close> the
  integer \<open>k\<close> with \<open>2 ^ k \<le> x < 2 ^ (k + 1)\<close>, for \<open>x > 0\<close>: the difference of
  the bit lengths of numerator and denominator, or one less.
\<close>

function bit_length :: "int \<Rightarrow> int" where
  "bit_length n = (if n \<le> 0 then 0 else bit_length (n div 2) + 1)"
  by auto
termination
  by (relation "measure nat") auto

declare bit_length.simps [simp del]

definition floor_log2 :: "rat \<Rightarrow> int" where
  "floor_log2 x =
     (let k = bit_length (fst (quotient_of x)) - bit_length (snd (quotient_of x))
      in if 2 powi k \<le> x then k else k - 1)"

definition round_half_even :: "rat \<Rightarrow> int" where
  "round_half_even r =
     (if r - of_int \<lfloor>r\<rfloor> < 1 / 2 then \<lfloor>r\<rfloor>
      else if 1 / 2 < r - of_int \<lfloor>r\<rfloor> then \<lfloor>r\<rfloor> + 1
      else if even \<lfloor>r\<rfloor> then \<lfloor>r\<rfloor>
      else \<lfloor>r\<rfloor> + 1)"

definition double_round :: "rat \<Rightarrow> number" where
  "double_round x =
     (if x = 0 then Fin 0
      else
        let e = max (- 1074) (floor_log2 \<bar>x\<bar> - 52);
            v = of_int (round_half_even (\<bar>x\<bar> / 2 powi e)) * 2 powi e
        in if 2 ^ 1024 \<le> v then (if 0 < x then PosInf else NegInf)
           else Fin (sgn x * v))"

fun double_add :: "number \<Rightarrow> number \<Rightarrow> number" where
  "double_add (Fin a) (Fin b) = double_round (a + b)"
| "double_add (Fin a) PosInf = Fin a + PosInf"
| "double_add (Fin a) NegInf = Fin a + NegInf"
| "double_add (Fin a) NaN = Fin a + NaN"
| "double_add PosInf b = PosInf + b"
| "double_add NegInf b = NegInf + b"
| "double_add NaN b = NaN + b"

text \<open>
  The data of the product revenue chart (App.jsx lines 132 to 136) with binary64
  addition, and a sum taken by \<open>reduce\<close> from \<open>0\<close>.
\<close>

definition productRevenue_double :: "row list \<Rightarrow> number list" where
  "productRevenue_double rows = map (\<lambda>product.
     foldl (\<lambda>sum item. double_add sum (Total_Revenue item)) 0
       (filter (\<lambda>item. Product_Name item = product) rows)) (products rows)"

definition double_sum :: "number list \<Rightarrow> number" where
  "double_sum vs = foldl (\<lambda>sum v. double_add sum v) 0 vs"

section \<open>Choosing the parser (\<open>handleFileChange\<close> in App.jsx)\<close>

text \<open>
  \<open>handleFileChange\<close> itself never calls \<open>setData\<close>: it starts an asynchronous
  parse, whose callback stores the rows later, or it starts nothing. The two libraries are
  parameters: \<open>papa f\<close> is the \<open>result.data\<close> handed to \<open>complete\<close>, \<open>xlsx f\<close> the
  \<open>jsonData\<close> computed in \<open>onload\<close>; \<open>None\<close> when the callback never reaches
  \<open>setData\<close>.
\<close>

record 'c File =
  name :: string
  contents :: 'c

datatype 'c pending = Papa_parse "'c File" | FileReader_readAsBinaryString "'c File"

definition fileExtension :: "'c File \<Rightarrow> string" where
  "fileExtension f = toLowerCase (last (js_split CHR ''.'' (name f)))"

definition handleFileChange :: "'c File option \<Rightarrow> 'c pending option" where
  "handleFileChange files0 =
     (case files0 of
        None \<Rightarrow> None
      | Some f \<Rightarrow>
          if fileExtension f = ''csv'' then Some (Papa_parse f)
          else if fileExtension f = ''xls'' \<or> fileExtension f = ''xlsx''
            then Some (FileReader_readAsBinaryString f)
          else None)"

definition callback ::
  "('c File \<Rightarrow> 'r list option) \<Rightarrow> ('c File \<Rightarrow> 'r list option) \<Rightarrow>
   'c pending \<Rightarrow> 'r list option \<Rightarrow> 'r list option" where
  "callback papa xlsx p d =
     (case p of
        Papa_parse f \<Rightarrow> (case papa f of None \<Rightarrow> d | Some result_data \<Rightarrow> Some result_data)
      | FileReader_readAsBinaryString f \<Rightarrow>
          (case xlsx f of None \<Rightarrow> d | Some jsonData \<Rightarrow> Some jsonData))"

text \<open>The stored \<open>data\<close> after a file has been selected and every callback has run.\<close>

definition file_selected ::
  "('c File \<Rightarrow> 'r list option) \<Rightarrow> ('c File \<Rightarrow> 'r list option) \<Rightarrow>
   'c File option \<Rightarrow> 'r list option \<Rightarrow> 'r list option" where
  "file_selected papa xlsx files0 d =
     (case handleFileChange files0 of None \<Rightarrow> d | Some p \<Rightarrow> callback papa xlsx p d)"

section \<open>The upload route (server.js)\<close>





text \<open>
  JSON values, and \<open>res.send\<close> as Express 4 and Node implement it (the libraries are
  not part of this repository; this is their behaviour as far as the handler meets it).
  Given a bare number, \<open>res.send\<close> takes it for a status code: it sets the status to the
  number and sends the status message as text; Node then converts the status to a 32-bit
  integer and throws a \<open>RangeError\<close> unless it lies between 100 and 999. \<open>null\<close> is
  sent as the empty body, a string as itself, and a boolean, an array or an object as its
  JSON text. \<open>message\<close> is the table of status messages.
\<close>

datatype json =
  JNull | JBool bool | JNumber rat | JString string | JArray "json list"
  | JObject "(string \<times> json) list"





section \<open>The specification's vocabulary\<close>

text \<open>
  De-duplication in first-occurrence order, as the specification words it: keep an
  element, drop its later copies, go on.
\<close>

fun first_occurrences :: "'a list \<Rightarrow> 'a list" where
  "first_occurrences [] = []"
| "first_occurrences (v # vs) = v # first_occurrences (filter (\<lambda>w. w \<noteq> v) vs)"

text \<open>
  The extension of a file name in the ordinary sense: the text after its last dot. A
  name without a dot has no extension.
\<close>

definition extension_of :: "string \<Rightarrow> string" where
  "extension_of n =
     (if CHR ''.'' \<in> set n then rev (takeWhile (\<lambda>c. c \<noteq> CHR ''.'') (rev n)) else [])"

text \<open>
  A number is whole when it is finite and an integer; its magnitude is its absolute
  value (0 for an infinity and NaN).
\<close>

definition whole :: "number \<Rightarrow> bool" where
  "whole v = (case v of Fin a \<Rightarrow> a = of_int \<lfloor>a\<rfloor> | _ \<Rightarrow> False)"

definition magnitude :: "number \<Rightarrow> rat" where
  "magnitude v = (case v of Fin a \<Rightarrow> \<bar>a\<bar> | _ \<Rightarrow> 0)"

definition to_int :: "number \<Rightarrow> int" where
  "to_int v = (case v of Fin a \<Rightarrow> \<lfloor>a\<rfloor> | _ \<Rightarrow> 0)"

text \<open>Three rows whose revenues are binary64 numbers and whose sums round.\<close>

definition rounding_rows :: "row list" where
  "rounding_rows =
    [\<lparr>Date = ''1/5/2023'', Product_Name = ''A'',
      Total_Revenue = Fin 10000000000000000, Quantity_Sold = Fin 1\<rparr>,
     \<lparr>Date = ''1/6/2023'', Product_Name = ''B'', Total_Revenue = Fin 2, Quantity_Sold = Fin 1\<rparr>,
     \<lparr>Date = ''2/1/2023'', Product_Name = ''A'', Total_Revenue = Fin 1, Quantity_Sold = Fin 1\<rparr>]"

text \<open>The example rows of the specification.\<close>

definition example_rows :: "row list" where
  "example_rows =
    [\<lparr>Date = ''1/5/2023'', Product_Name = ''A'', Total_Revenue = Fin 100, Quantity_Sold = Fin 10\<rparr>,
     \<lparr>Date = ''1/6/2023'', Product_Name = ''B'', Total_Revenue = Fin 50, Quantity_Sold = Fin 5\<rparr>,
     \<lparr>Date = ''2/1/2023'', Product_Name = ''A'', Total_Revenue = Fin 200, Quantity_Sold = Fin 20\<rparr>]"



text \<open>Rows whose dates carry no day, so that a date starts with its own month key.\<close>

definition dayless_rows :: "row list" where
  "dayless_rows =
    [\<lparr>Date = ''1/2023'', Product_Name = ''A'', Total_Revenue = Fin 100, Quantity_Sold = Fin 10\<rparr>,
     \<lparr>Date = ''2/2023'', Product_Name = ''B'', Total_Revenue = Fin 150, Quantity_Sold = Fin 0\<rparr>,
     \<lparr>Date = ''1/2023'', Product_Name = ''B'', Total_Revenue = Fin 20, Quantity_Sold = Fin 0\<rparr>]"

section \<open>Properties of the building blocks\<close>

lemma foldl_plus:
  fixes a :: "'a::comm_monoid_add"
  shows "foldl (\<lambda>sum item. sum + f item) a xs = a + sum_list (map f xs)"
  by (induction xs arbitrary: a) (simp_all add: add.assoc)

lemma reduce_sum:
  fixes f :: "'r \<Rightarrow> 'a::comm_monoid_add"
  shows "foldl (\<lambda>sum item. sum + f item) 0 xs = sum_list (map f xs)"
  by (simp add: foldl_plus)

lemma startsWith_prefix: "startsWith s p = prefix p s"
  unfolding startsWith_def prefix_def
  by (metis append_eq_conv_conj)

lemma foldl_Set_add:
  "foldl Set_add acc xs = acc @ first_occurrences (filter (\<lambda>v. v \<notin> set acc) xs)"
proof (induction xs arbitrary: acc)
  case Nil
  show ?case by simp
next
  case (Cons x xs)
  show ?case
  proof (cases "x \<in> set acc")
    case True
    then have "Set_add acc x = acc" by (simp add: Set_add_def)
    with True Cons.IH [of acc] show ?thesis by simp
  next
    case False
    then have step: "Set_add acc x = acc @ [x]" by (simp add: Set_add_def)
    have eq: "filter (\<lambda>v. v \<notin> set (acc @ [x])) xs
        = filter (\<lambda>w. w \<noteq> x) (filter (\<lambda>v. v \<notin> set acc) xs)"
      by (auto intro: filter_cong)
    from False show ?thesis
      using Cons.IH [of "acc @ [x]"] by (simp only: foldl.simps step eq) simp
  qed
qed

lemma new_Set_first_occurrences: "new_Set xs = first_occurrences xs"
  by (simp add: new_Set_def foldl_Set_add)

lemma set_first_occurrences: "set (first_occurrences xs) = set xs"
  by (induction xs rule: first_occurrences.induct) auto

lemma distinct_first_occurrences: "distinct (first_occurrences xs)"
  by (induction xs rule: first_occurrences.induct) (auto simp: set_first_occurrences)

lemma first_occurrences_Nil: "first_occurrences xs = [] \<longleftrightarrow> xs = []"
  by (cases xs) simp_all

lemma js_split_nonempty: "js_split sep s \<noteq> []"
  by (induction s) simp_all

lemma hd_js_split: "hd (js_split sep s) = takeWhile (\<lambda>c. c \<noteq> sep) s"
  by (induction s) simp_all

lemma js_split_append: "js_split sep (xs @ sep # ys) = js_split sep xs @ js_split sep ys"
  by (induction xs) (simp_all add: js_split_nonempty)

lemma js_split_none: "sep \<notin> set s \<Longrightarrow> js_split sep s = [s]"
  by (induction s) auto

lemma last_js_split: "sep \<notin> set ext \<Longrightarrow> last (js_split sep (base @ sep # ext)) = ext"
  by (simp add: js_split_append js_split_none)

lemma sum_list_indicator:
  "distinct ps \<Longrightarrow>
     sum_list (map (\<lambda>p. if k = p then v else 0) ps)
       = (if k \<in> set ps then v else (0::'a::comm_monoid_add))"
  by (induction ps) auto

text \<open>Grouping by a key and adding the groups' sums gives the sum of all rows.\<close>

lemma sum_list_groups:
  fixes f :: "'r \<Rightarrow> 'a::comm_monoid_add"
  assumes "distinct ps" and "key ` set rows \<subseteq> set ps"
  shows "sum_list (map (\<lambda>p. sum_list (map f (filter (\<lambda>r. key r = p) rows))) ps)
           = sum_list (map f rows)"
  using assms(2)
proof (induction rows)
  case Nil
  show ?case by simp
next
  case (Cons r rows)
  have "sum_list (map (\<lambda>p. sum_list (map f (filter (\<lambda>r. key r = p) (r # rows)))) ps)
      = sum_list (map (\<lambda>p. (if key r = p then f r else 0)
          + sum_list (map f (filter (\<lambda>r. key r = p) rows))) ps)"
    by (rule arg_cong [where f = sum_list]) (rule map_cong, simp_all)
  also have "\<dots> = sum_list (map (\<lambda>p. if key r = p then f r else 0) ps)
        + sum_list (map (\<lambda>p. sum_list (map f (filter (\<lambda>r. key r = p) rows))) ps)"
    by (rule sum_list_addf)
  also have "\<dots> = f r + sum_list (map f rows)"
    using Cons assms(1) by (simp add: sum_list_indicator)
  finally show ?case by simp
qed

section \<open>What each derived sequence is\<close>

lemma products_eq: "products rows = first_occurrences (map Product_Name rows)"
  by (simp add: products_def new_Set_first_occurrences)

lemma months_eq:
  "months rows
     = first_occurrences
         (map (\<lambda>r. takeWhile (\<lambda>c. c \<noteq> CHR ''/'') (Date r) @ ''/2023'') rows)"
  by (simp add: months_def dates_def new_Set_first_occurrences hd_js_split comp_def)

lemma monthlyRevenue_eq:
  "monthlyRevenue rows
     = map (\<lambda>month. sum_list (map Total_Revenue (filter (\<lambda>r. prefix month (Date r)) rows)))
         (months rows)"
  by (simp add: monthlyRevenue_def reduce_sum startsWith_prefix)

lemma values_productRevenue:
  "chart_values (productRevenueChart (createChartData rows))
     = map (\<lambda>p. sum_list (map Total_Revenue (filter (\<lambda>r. Product_Name r = p) rows)))
         (products rows)"
  by (simp add: createChartData_def chart_values_def reduce_sum)

lemma values_quantitySold:
  "chart_values (quantitySoldChart (createChartData rows))
     = map (\<lambda>p. sum_list (map Quantity_Sold (filter (\<lambda>r. Product_Name r = p) rows)))
         (products rows)"
  by (simp add: createChartData_def chart_values_def reduce_sum)

lemma values_averageRevenue:
  "chart_values (averageRevenueChart (createChartData rows))
     = map (\<lambda>p. js_div
           (sum_list (map Total_Revenue (filter (\<lambda>r. Product_Name r = p) rows)))
           (sum_list (map Quantity_Sold (filter (\<lambda>r. Product_Name r = p) rows))))
         (products rows)"
  by (simp add: createChartData_def chart_values_def averageRevenue_def reduce_sum Let_def)

lemma values_scatter:
  "chart_values (scatterPlotData (createChartData rows))
     = map (\<lambda>p.
          \<lparr>point_x = sum_list (map Quantity_Sold (filter (\<lambda>r. Product_Name r = p) rows)),
           point_y = sum_list (map Total_Revenue (filter (\<lambda>r. Product_Name r = p) rows))\<rparr>)
         (products rows)"
  by (simp add: createChartData_def chart_values_def revenueVsQuantity_def reduce_sum Let_def)

lemma values_revenueOverTime:
  "chart_values (revenueOverTime (createChartData rows)) = map Total_Revenue rows"
  by (simp add: createChartData_def chart_values_def totalRevenue_def)

lemma values_monthlyGrowth:
  "chart_values (monthlyGrowthChart (createChartData rows)) = monthlyGrowth rows"
  by (simp add: createChartData_def chart_values_def)

lemma length_growth: "length (growth arr) = length arr"
  by (simp add: growth_def)

lemma growth_nth:
  "i < length arr \<Longrightarrow>
     growth arr ! i
       = (if i = 0 then Fin 0
          else js_mul (js_div (js_sub (arr ! i) (arr ! (i - 1))) (arr ! (i - 1))) (Fin 100))"
  by (simp add: growth_def zero_number_def)

lemma length_monthlyRevenue: "length (monthlyRevenue rows) = length (months rows)"
  by (simp add: monthlyRevenue_def)

lemma months_Nil: "months rows = [] \<longleftrightarrow> rows = []"
  by (simp add: months_eq first_occurrences_Nil)

lemmas evaluate =
  createChartData_def chart_values_def products_def new_Set_def Set_add_def
  averageRevenue_def revenueVsQuantity_def zero_number_def months_def dates_def
  totalRevenue_def monthlyRevenue_def startsWith_def monthlyGrowth_def growth_def js_sub_def

section \<open>Binary64 addition\<close>

lemma bit_length_nonpos: "n \<le> 0 \<Longrightarrow> bit_length n = 0"
  by (subst bit_length.simps) simp

lemma bit_length_step: "0 < n \<Longrightarrow> bit_length n = bit_length (n div 2) + 1"
  by (subst bit_length.simps) simp

lemma bit_length_nonneg: "0 \<le> bit_length n"
  by (induction n rule: bit_length.induct) (subst bit_length.simps, simp)

lemma bit_length_bounds:
  "0 < n \<Longrightarrow> 2 ^ nat (bit_length n - 1) \<le> n \<and> n < 2 ^ nat (bit_length n)"
proof (induction n rule: bit_length.induct)
  case (1 n)
  show ?case
  proof (cases "n div 2 = 0")
    case True
    with \<open>0 < n\<close> have "n = 1" by presburger
    then have "bit_length n = 1"
      by (simp add: bit_length_step bit_length_nonpos)
    with \<open>n = 1\<close> show ?thesis by simp
  next
    case False
    with \<open>0 < n\<close> have h: "0 < n div 2" by presburger
    define b where "b = bit_length (n div 2)"
    from "1.IH" h \<open>0 < n\<close>
    have ih: "2 ^ nat (b - 1) \<le> n div 2" "n div 2 < 2 ^ nat b"
      by (simp_all add: b_def)
    have bpos: "1 \<le> b"
    proof (rule ccontr)
      assume "\<not> 1 \<le> b"
      then have "nat b = 0" by simp
      with ih(2) h show False by simp
    qed
    have bn: "bit_length n = b + 1"
      using \<open>0 < n\<close> by (simp add: bit_length_step b_def)
    have e1: "(2::int) ^ nat b = 2 * 2 ^ nat (b - 1)"
      using bpos by (metis Suc_nat_eq_nat_zadd1 diff_add_cancel diff_ge_0_iff_ge power_Suc add.commute)
    have e2: "(2::int) ^ nat (b + 1) = 2 * 2 ^ nat b"
      using bpos by (simp add: nat_add_distrib)
    have "2 * (n div 2) \<le> n" "n < 2 * (n div 2) + 2"
      by presburger+
    with ih e1 e2 show ?thesis
      by (simp add: bn)
  qed
qed

lemma powi_two_pos: "0 < (2::rat) powi k"
  by simp

lemma floor_log2_unique_aux:
  assumes "(2::rat) powi k \<le> x" "x < 2 powi (j + 1)"
  shows "k \<le> j"
proof (rule ccontr)
  assume "\<not> k \<le> j"
  then have "j + 1 \<le> k" by simp
  then have "(2::rat) powi (j + 1) \<le> 2 powi k"
    by (intro power_int_increasing) simp_all
  with assms show False by simp
qed

lemma floor_log2_bounds:
  assumes "0 < x"
  shows "2 powi floor_log2 x \<le> x \<and> x < 2 powi (floor_log2 x + 1)"
proof -
  define p where "p = fst (quotient_of x)"
  define q where "q = snd (quotient_of x)"
  have qpos: "0 < q"
    by (simp add: q_def quotient_of_denom_pos')
  have x: "x = of_int p / of_int q"
    by (simp add: p_def q_def quotient_of_div)
  with assms qpos have ppos: "0 < p"
    by (simp add: zero_less_divide_iff)
  define a where "a = bit_length p"
  define b where "b = bit_length q"
  from bit_length_bounds [OF ppos] have pa: "2 ^ nat (a - 1) \<le> p" "p < 2 ^ nat a"
    by (simp_all add: a_def)
  from bit_length_bounds [OF qpos] have qb: "2 ^ nat (b - 1) \<le> q" "q < 2 ^ nat b"
    by (simp_all add: b_def)
  have apos: "1 \<le> a"
    using pa(2) ppos by (cases "1 \<le> a") auto
  have bpos: "1 \<le> b"
    using qb(2) qpos by (cases "1 \<le> b") auto
  have P: "(2::rat) powi (a - 1) \<le> of_int p" "of_int p < (2::rat) powi a"
  proof -
    have "(of_int (2 ^ nat (a - 1)) :: rat) \<le> of_int p"
      using pa(1) by (simp only: of_int_le_iff)
    then show "(2::rat) powi (a - 1) \<le> of_int p"
      using apos by (simp add: power_int_def)
    have "(of_int p :: rat) < of_int (2 ^ nat a)"
      using pa(2) by (simp only: of_int_less_iff)
    then show "of_int p < (2::rat) powi a"
      using apos by (simp add: power_int_def)
  qed
  have Q: "(2::rat) powi (b - 1) \<le> of_int q" "of_int q < (2::rat) powi b"
  proof -
    have "(of_int (2 ^ nat (b - 1)) :: rat) \<le> of_int q"
      using qb(1) by (simp only: of_int_le_iff)
    then show "(2::rat) powi (b - 1) \<le> of_int q"
      using bpos by (simp add: power_int_def)
    have "(of_int q :: rat) < of_int (2 ^ nat b)"
      using qb(2) by (simp only: of_int_less_iff)
    then show "of_int q < (2::rat) powi b"
      using bpos by (simp add: power_int_def)
  qed
  have upper: "x < 2 powi (a - b + 1)"
  proof -
    have "of_int p / of_int q < (2::rat) powi a / 2 powi (b - 1)"
      using P(2) Q(1) ppos by (intro frac_less) simp_all
    also have "\<dots> = 2 powi (a - (b - 1))"
      by (simp add: power_int_diff)
    finally show ?thesis by (simp add: x algebra_simps)
  qed
  have lower: "2 powi (a - b - 1) < x"
  proof -
    have "(2::rat) powi (a - 1) / 2 powi b < of_int p / of_int q"
      using P(1) Q(2) qpos by (intro frac_less2) simp_all
    moreover have "(2::rat) powi (a - 1) / 2 powi b = 2 powi (a - 1 - b)"
      by (simp add: power_int_diff)
    ultimately show ?thesis by (simp add: x algebra_simps)
  qed
  have fl: "floor_log2 x = (if 2 powi (a - b) \<le> x then a - b else a - b - 1)"
    by (simp add: floor_log2_def Let_def a_def b_def p_def q_def)
  show ?thesis
  proof (cases "2 powi (a - b) \<le> x")
    case True
    with upper fl show ?thesis by simp
  next
    case False
    with lower fl show ?thesis by simp
  qed
qed

lemma floor_log2_eqI:
  assumes "0 < x" "2 powi k \<le> x" "x < 2 powi (k + 1)"
  shows "floor_log2 x = k"
proof -
  from floor_log2_bounds [OF assms(1)]
  have b: "2 powi floor_log2 x \<le> x" "x < 2 powi (floor_log2 x + 1)"
    by simp_all
  from floor_log2_unique_aux [OF assms(2) b(2)] floor_log2_unique_aux [OF b(1) assms(3)]
  show ?thesis by simp
qed

lemma round_half_even_of_int: "round_half_even (of_int z) = z"
  by (simp add: round_half_even_def)

lemma double_round_of_int:
  assumes "\<bar>n\<bar> < 2 ^ 53"
  shows "double_round (of_int n) = Fin (of_int n)"
proof (cases "n = 0")
  case True
  then show ?thesis by (simp add: double_round_def)
next
  case False
  define x :: rat where "x = of_int n"
  have xpos: "0 < \<bar>x\<bar>"
    using False by (simp add: x_def)
  have xlt: "\<bar>x\<bar> < 2 powi 53"
  proof -
    have "(of_int \<bar>n\<bar> :: rat) < of_int (2 ^ 53)"
      using assms by (simp only: of_int_less_iff)
    then show ?thesis by (simp add: x_def)
  qed
  define e where "e = max (- 1074) (floor_log2 \<bar>x\<bar> - 52)"
  from floor_log2_bounds [OF xpos] have "2 powi floor_log2 \<bar>x\<bar> \<le> \<bar>x\<bar>"
    by simp
  with xlt have "(2::rat) powi floor_log2 \<bar>x\<bar> < 2 powi (52 + 1)"
    by simp
  then have "floor_log2 \<bar>x\<bar> \<le> 52"
    by (intro floor_log2_unique_aux [of _ "2 powi floor_log2 \<bar>x\<bar>"]) simp_all
  then have e: "e \<le> 0"
    by (simp add: e_def)
  define j where "j = nat (- e)"
  have pe: "(2::rat) powi e = 1 / 2 ^ j"
    using e by (simp add: power_int_def j_def field_simps)
  have scaled: "\<bar>x\<bar> / 2 powi e = of_int (\<bar>n\<bar> * 2 ^ j)"
    by (simp add: pe x_def)
  have v: "of_int (round_half_even (\<bar>x\<bar> / 2 powi e)) * 2 powi e = \<bar>x\<bar>"
    by (simp only: scaled round_half_even_of_int) (simp add: pe x_def)
  have small: "\<not> (2::rat) ^ 1024 \<le> \<bar>x\<bar>"
  proof -
    have "(2::rat) powi 53 \<le> 2 powi 1024"
      by (intro power_int_increasing) simp_all
    with xlt show ?thesis by simp
  qed
  have "sgn x * \<bar>x\<bar> = x"
    by (simp add: sgn_mult_abs)
  with v small False show ?thesis
    unfolding double_round_def Let_def x_def [symmetric] e_def [symmetric]
    by (simp add: x_def)
qed

lemma double_round_1e16_1: "double_round 10000000000000001 = Fin 10000000000000000"
proof -
  have f: "floor_log2 10000000000000001 = 53"
    by (rule floor_log2_eqI) simp_all
  have h: "\<lfloor>10000000000000001 / 2 :: rat\<rfloor> = 5000000000000000"
    by (simp add: floor_eq_iff)
  show ?thesis
    by (simp add: double_round_def Let_def f round_half_even_def h)
qed

lemma double_round_1e16_3: "double_round 10000000000000003 = Fin 10000000000000004"
proof -
  have f: "floor_log2 10000000000000003 = 53"
    by (rule floor_log2_eqI) simp_all
  have h: "\<lfloor>10000000000000003 / 2 :: rat\<rfloor> = 5000000000000001"
    by (simp add: floor_eq_iff)
  show ?thesis
    by (simp add: double_round_def Let_def f round_half_even_def h)
qed

lemma double_add_ints:
  "\<bar>a + k\<bar> < 2 ^ 53 \<Longrightarrow>
     double_add (Fin (of_int a)) (Fin (of_int k)) = Fin (of_int (a + k))"
  using double_round_of_int [of "a + k"] by simp

lemma foldl_double_add_ints:
  "\<bar>a\<bar> + sum_list (map abs ks) < 2 ^ 53 \<Longrightarrow>
     foldl double_add (Fin (of_int a)) (map (\<lambda>k. Fin (of_int k)) ks)
       = Fin (of_int (a + sum_list ks))"
proof (induction ks arbitrary: a)
  case Nil
  show ?case by simp
next
  case (Cons k ks)
  have nonneg: "0 \<le> sum_list (map abs ks)"
    by (rule sum_list_nonneg) auto
  from Cons.prems nonneg have step: "\<bar>a + k\<bar> < 2 ^ 53"
    by simp
  from Cons.prems have "\<bar>a + k\<bar> + sum_list (map abs ks) < 2 ^ 53"
    by simp
  from Cons.IH [OF this]
  have "foldl double_add (Fin (of_int (a + k))) (map (\<lambda>k. Fin (of_int k)) ks)
      = Fin (of_int (a + k + sum_list ks))" .
  then show ?case
    by (simp only: list.map foldl.simps double_add_ints [OF step] sum_list.Cons add.assoc)
qed

lemma sum_list_Fin_ints:
  "sum_list (map (\<lambda>k. Fin (of_int k)) ks) = Fin (of_int (sum_list ks))"
  by (induction ks) (simp_all add: zero_number_def)

lemma whole_Fin: "whole v \<Longrightarrow> v = Fin (of_int (to_int v))"
  by (cases v) (simp_all add: whole_def to_int_def)

lemma whole_magnitude: "whole v \<Longrightarrow> magnitude v = of_int \<bar>to_int v\<bar>"
  by (cases v) (auto simp: whole_def to_int_def magnitude_def)

lemma whole_list:
  "list_all whole vs \<Longrightarrow> vs = map (\<lambda>k. Fin (of_int k)) (map to_int vs)"
  by (induction vs) (auto dest: whole_Fin)

lemma magnitude_list:
  "list_all whole vs \<Longrightarrow>
     sum_list (map magnitude vs) = of_int (sum_list (map abs (map to_int vs)))"
  by (induction vs) (auto simp: whole_magnitude)

lemma double_sum_whole:
  assumes "list_all whole vs" and "sum_list (map magnitude vs) < 2 ^ 53"
  shows "double_sum vs = sum_list vs"
proof -
  define ks where "ks = map to_int vs"
  have vs: "vs = map (\<lambda>k. Fin (of_int k)) ks"
    using whole_list [OF assms(1)] by (simp add: ks_def)
  have "(of_int (sum_list (map abs ks)) :: rat) < of_int (2 ^ 53)"
    using assms(2) magnitude_list [OF assms(1)] by (simp add: ks_def)
  then have "sum_list (map abs ks) < 2 ^ 53"
    by (simp only: of_int_less_iff)
  then have "\<bar>0\<bar> + sum_list (map abs ks) < 2 ^ 53"
    by simp
  from foldl_double_add_ints [OF this]
  have "foldl double_add (Fin (of_int 0)) (map (\<lambda>k. Fin (of_int k)) ks)
      = Fin (of_int (sum_list ks))"
    by simp
  then show ?thesis
    by (simp add: double_sum_def vs sum_list_Fin_ints zero_number_def)
qed

lemma sum_list_whole:
  assumes "list_all whole vs"
  shows "whole (sum_list vs) \<and> magnitude (sum_list vs) \<le> sum_list (map magnitude vs)"
proof -
  define ks where "ks = map to_int vs"
  have vs: "vs = map (\<lambda>k. Fin (of_int k)) ks"
    using whole_list [OF assms] by (simp add: ks_def)
  have s: "sum_list vs = Fin (of_int (sum_list ks))"
    by (simp add: vs sum_list_Fin_ints)
  have "\<bar>sum_list ks\<bar> \<le> sum_list (map abs ks)"
    by (rule sum_list_abs)
  then have "(of_int \<bar>sum_list ks\<bar> :: rat) \<le> of_int (sum_list (map abs ks))"
    by (simp only: of_int_le_iff)
  then show ?thesis
    using magnitude_list [OF assms] by (simp add: s whole_def magnitude_def ks_def)
qed

lemma sum_list_filter_le:
  fixes f :: "'a \<Rightarrow> rat"
  assumes "\<And>x. 0 \<le> f x"
  shows "sum_list (map f (filter P xs)) \<le> sum_list (map f xs)"
  by (induction xs) (auto intro: add_increasing assms)

lemma magnitude_nonneg: "0 \<le> magnitude v"
  by (cases v) (simp_all add: magnitude_def)

lemma reduce_double_map:
  "foldl (\<lambda>sum item. double_add sum (f item)) a xs = foldl double_add a (map f xs)"
  by (induction xs arbitrary: a) simp_all

lemma double_sum_map:
  "double_sum (map f xs) = foldl (\<lambda>sum item. double_add sum (f item)) 0 xs"
  by (simp only: double_sum_def reduce_double_map [symmetric])

lemma double_round_1e16: "double_round 10000000000000000 = Fin 10000000000000000"
proof -
  have f: "floor_log2 10000000000000000 = 53"
    by (rule floor_log2_eqI) simp_all
  show ?thesis
    by (simp add: double_round_def Let_def f round_half_even_def)
qed

lemma double_round_1e16_2: "double_round 10000000000000002 = Fin 10000000000000002"
proof -
  have f: "floor_log2 10000000000000002 = 53"
    by (rule floor_log2_eqI) simp_all
  show ?thesis
    by (simp add: double_round_def Let_def f round_half_even_def)
qed

lemma double_round_2: "double_round 2 = Fin 2"
  using double_round_of_int [of 2] by simp

lemmas rounding =
  double_round_1e16 double_round_1e16_1 double_round_1e16_2 double_round_1e16_3 double_round_2

section \<open>When the pipeline throws\<close>



section \<open>The parser choice on concrete names\<close>

lemma last_js_split_dotted:
  assumes "sep \<in> set s"
  shows "last (js_split sep s) = rev (takeWhile (\<lambda>c. c \<noteq> sep) (rev s))"
proof -
  from assms obtain base ext where s: "s = base @ sep # ext" and ext: "sep \<notin> set ext"
    by (auto dest: split_list_last)
  have "takeWhile (\<lambda>c. c \<noteq> sep) (rev ext @ sep # rev base) = rev ext"
    using ext by (auto simp: takeWhile_tail)
  then show ?thesis
    using ext by (simp add: s last_js_split)
qed

lemma fileExtension_with_dot:
  "CHR ''.'' \<in> set (name f) \<Longrightarrow> fileExtension f = toLowerCase (extension_of (name f))"
  by (simp add: fileExtension_def extension_of_def last_js_split_dotted)

lemma fileExtension_without_dot:
  "CHR ''.'' \<notin> set (name f) \<Longrightarrow> fileExtension f = toLowerCase (name f)"
  by (simp add: fileExtension_def js_split_none)

lemma csv_and_spreadsheet_are_parsed:
  "file_selected (\<lambda>f. Some [1::nat]) (\<lambda>f. Some [2])
      (Some \<lparr>name = ''sales.CSV'', contents = ()\<rparr>) None = Some [1]"
  "file_selected (\<lambda>f. Some [1::nat]) (\<lambda>f. Some [2])
      (Some \<lparr>name = ''sales.2023.xlsx'', contents = ()\<rparr>) None = Some [2]"
  "file_selected (\<lambda>f. Some [1::nat]) (\<lambda>f. Some [2])
      (Some \<lparr>name = ''xls'', contents = ()\<rparr>) None = Some [2]"
  by (simp_all add: file_selected_def handleFileChange_def callback_def fileExtension_def
      toLowerCase_def toLowerCase_char_def)

section \<open>The claims\<close>

subsection \<open>C1: the specification's example\<close>

text \<open>
  C1. The specification's example of three rows, run through \<open>createChartData\<close>. The
  distinct products are A and B, the product revenues 300 and 50, the quantities 30 and
  5, the averages 10 and 10, and the month labels 1/2023 and 2/2023, as the
  specification says. The monthly revenue, however, is 0 and 0, not 150 and 200: a month
  key ends in \<open>/2023\<close>, and no date of the form month/day/year starts with it, so
  \<open>startsWith\<close> selects no row. The growth is then 0 and NaN (zero divided by zero),
  not 0 and 33.33.
\<close>

theorem example_rows_charts:
  "products example_rows = [''A'', ''B'']
  \<and> chart_values (productRevenueChart (createChartData example_rows)) = [Fin 300, Fin 50]
  \<and> chart_values (quantitySoldChart (createChartData example_rows)) = [Fin 30, Fin 5]
  \<and> chart_values (averageRevenueChart (createChartData example_rows)) = [Fin 10, Fin 10]
  \<and> labels (monthlyGrowthChart (createChartData example_rows)) = Some [''1/2023'', ''2/2023'']
  \<and> monthlyRevenue example_rows = [Fin 0, Fin 0]
  \<and> chart_values (monthlyGrowthChart (createChartData example_rows)) = [Fin 0, NaN]"
  by (simp add: evaluate example_rows_def)

subsection \<open>C2: the month axis and the monthly revenue\<close>

text \<open>
  C2. For every row sequence, the labels of the monthly growth chart are the month keys:
  per row the part of \<open>Date\<close> before its first slash, followed by \<open>/2023\<close>,
  de-duplicated in first-occurrence order. \<open>monthlyRevenue\<close> has one entry per month
  key, and entry \<open>i\<close> is the sum of \<open>Total Revenue\<close> over exactly the rows whose
  \<open>Date\<close> starts with the \<open>i\<close>-th month key.
\<close>

theorem month_axis_and_revenue:
  "labels (monthlyGrowthChart (createChartData rows)) = Some (months rows)
   \<and> months rows = first_occurrences
         (map (\<lambda>r. takeWhile (\<lambda>c. c \<noteq> CHR ''/'') (Date r) @ ''/2023'') rows)
   \<and> length (monthlyRevenue rows) = length (months rows)
   \<and> (\<forall>i < length (months rows).
        monthlyRevenue rows ! i
          = sum_list (map Total_Revenue
              (filter (\<lambda>r. prefix (months rows ! i) (Date r)) rows)))"
proof -
  have "labels (monthlyGrowthChart (createChartData rows)) = Some (months rows)"
    by (simp add: createChartData_def)
  moreover have "\<forall>i < length (months rows).
        monthlyRevenue rows ! i
          = sum_list (map Total_Revenue
              (filter (\<lambda>r. prefix (months rows ! i) (Date r)) rows))"
    by (simp add: monthlyRevenue_eq)
  ultimately show ?thesis
    using months_eq [of rows] length_monthlyRevenue [of rows] by blast
qed

theorem month_axis_and_revenue_witness:
  "months dayless_rows = [''1/2023'', ''2/2023'']
   \<and> monthlyRevenue dayless_rows ! 0 = Fin 120
   \<and> sum_list (map Total_Revenue
        (filter (\<lambda>r. prefix (months dayless_rows ! 0) (Date r)) dayless_rows)) = Fin 120"
proof -
  have m: "months dayless_rows = [''1/2023'', ''2/2023'']"
    by (simp add: evaluate dayless_rows_def)
  have r: "monthlyRevenue dayless_rows ! 0 = Fin 120"
    by (simp add: evaluate dayless_rows_def)
  have "0 < length (months dayless_rows)"
    by (simp add: m)
  with month_axis_and_revenue [of dayless_rows]
  have "monthlyRevenue dayless_rows ! 0
      = sum_list (map Total_Revenue
          (filter (\<lambda>r. prefix (months dayless_rows ! 0) (Date r)) dayless_rows))"
    by blast
  with m r show ?thesis by simp
qed

subsection \<open>C3: the growth formula\<close>

text \<open>
  C3 as stated speaks of every row sequence. On the empty one \<open>monthlyGrowth\<close> is the
  empty array, so its element 0 is \<open>undefined\<close>, not 0.
\<close>

theorem monthlyGrowth_empty_rows:
  "monthlyGrowth [] = [] \<and> at_index (monthlyGrowth []) 0 \<noteq> Some (Fin 0)"
  by (simp add: evaluate at_index_def)

text \<open>
  C3, amended. For every non-empty row sequence \<open>monthlyGrowth[0]\<close> is 0. For every
  row sequence and every index \<open>i > 0\<close> of \<open>monthlyRevenue\<close>, \<open>monthlyGrowth[i]\<close>
  is \<open>(monthlyRevenue[i] - monthlyRevenue[i-1]) / monthlyRevenue[i-1] * 100\<close> in
  JavaScript arithmetic; when both revenues are finite and the earlier one is not zero,
  that is the number \<open>(a - b) / b * 100\<close>.
\<close>

theorem monthlyGrowth_formula:
  "(rows \<noteq> [] \<longrightarrow> at_index (monthlyGrowth rows) 0 = Some (Fin 0))
   \<and> (\<forall>i. 0 < i \<and> i < length (monthlyRevenue rows) \<longrightarrow>
         at_index (monthlyGrowth rows) i
           = Some (js_mul (js_div (js_sub (monthlyRevenue rows ! i) (monthlyRevenue rows ! (i - 1)))
                 (monthlyRevenue rows ! (i - 1))) (Fin 100)))
   \<and> (\<forall>i a b. 0 < i \<and> i < length (monthlyRevenue rows)
         \<and> monthlyRevenue rows ! i = Fin a \<and> monthlyRevenue rows ! (i - 1) = Fin b \<and> b \<noteq> 0 \<longrightarrow>
         at_index (monthlyGrowth rows) i = Some (Fin ((a - b) / b * 100)))"
proof (intro conjI allI impI)
  assume "rows \<noteq> []"
  then have "0 < length (monthlyRevenue rows)"
    by (simp add: length_monthlyRevenue months_Nil)
  then show "at_index (monthlyGrowth rows) 0 = Some (Fin 0)"
    by (simp add: at_index_def monthlyGrowth_def length_growth growth_nth)
next
  fix i
  assume "0 < i \<and> i < length (monthlyRevenue rows)"
  then show "at_index (monthlyGrowth rows) i
           = Some (js_mul (js_div (js_sub (monthlyRevenue rows ! i) (monthlyRevenue rows ! (i - 1)))
                 (monthlyRevenue rows ! (i - 1))) (Fin 100))"
    by (simp add: at_index_def monthlyGrowth_def length_growth growth_nth)
next
  fix i a b
  assume "0 < i \<and> i < length (monthlyRevenue rows)
         \<and> monthlyRevenue rows ! i = Fin a \<and> monthlyRevenue rows ! (i - 1) = Fin b \<and> b \<noteq> 0"
  then show "at_index (monthlyGrowth rows) i = Some (Fin ((a - b) / b * 100))"
    by (simp add: at_index_def monthlyGrowth_def length_growth growth_nth js_sub_def)
qed

theorem monthlyGrowth_formula_witness:
  "dayless_rows \<noteq> [] \<and> monthlyRevenue dayless_rows = [Fin 120, Fin 150]
   \<and> at_index (monthlyGrowth dayless_rows) 0 = Some (Fin 0)
   \<and> at_index (monthlyGrowth dayless_rows) 1
       = Some (js_mul (js_div (js_sub (Fin 150) (Fin 120)) (Fin 120)) (Fin 100))
   \<and> at_index (monthlyGrowth dayless_rows) 1 = Some (Fin ((150 - 120) / 120 * 100))
   \<and> at_index (monthlyGrowth dayless_rows) 1 = Some (Fin 25)"
proof -
  have ne: "dayless_rows \<noteq> []"
    by (simp add: dayless_rows_def)
  have r: "monthlyRevenue dayless_rows = [Fin 120, Fin 150]"
    by (simp add: evaluate dayless_rows_def)
  have h: "0 < (1::nat) \<and> 1 < length (monthlyRevenue dayless_rows)
         \<and> monthlyRevenue dayless_rows ! 1 = Fin 150
         \<and> monthlyRevenue dayless_rows ! (1 - 1) = Fin 120 \<and> (120::rat) \<noteq> 0"
    by (simp add: r)
  from monthlyGrowth_formula [of dayless_rows] ne
  have z: "at_index (monthlyGrowth dayless_rows) 0 = Some (Fin 0)"
    by blast
  from monthlyGrowth_formula [of dayless_rows] h
  have j: "at_index (monthlyGrowth dayless_rows) 1
      = Some (js_mul (js_div (js_sub (monthlyRevenue dayless_rows ! 1)
            (monthlyRevenue dayless_rows ! (1 - 1))) (monthlyRevenue dayless_rows ! (1 - 1)))
          (Fin 100))"
    by blast
  from monthlyGrowth_formula [of dayless_rows] h
  have g: "at_index (monthlyGrowth dayless_rows) 1 = Some (Fin ((150 - 120) / 120 * 100))"
    by blast
  from ne r z j g show ?thesis by (simp add: js_sub_def)
qed

subsection \<open>C4: labels and values are aligned\<close>

text \<open>
  C4. The three product charts carry the same labels, the distinct products in
  first-occurrence order. Every value sequence over the products (revenue, quantity,
  average, scatter points) has one entry per product, and entry \<open>i\<close> is computed from
  exactly the rows of product \<open>i\<close>; the growth values have one entry per month label,
  and entry \<open>i\<close> is computed from the revenues of month \<open>i\<close> and the month before.
  The revenue-over-time chart has one label and one value per row. This holds for every
  row sequence, the empty one included.
\<close>

theorem labels_and_values_aligned:
  "labels (productRevenueChart (createChartData rows)) = Some (products rows)
   \<and> labels (quantitySoldChart (createChartData rows)) = Some (products rows)
   \<and> labels (averageRevenueChart (createChartData rows)) = Some (products rows)
   \<and> products rows = first_occurrences (map Product_Name rows)
   \<and> length (chart_values (productRevenueChart (createChartData rows))) = length (products rows)
   \<and> length (chart_values (quantitySoldChart (createChartData rows))) = length (products rows)
   \<and> length (chart_values (averageRevenueChart (createChartData rows))) = length (products rows)
   \<and> length (chart_values (scatterPlotData (createChartData rows))) = length (products rows)
   \<and> (\<forall>i < length (products rows).
        chart_values (productRevenueChart (createChartData rows)) ! i
          = sum_list (map Total_Revenue (filter (\<lambda>r. Product_Name r = products rows ! i) rows))
      \<and> chart_values (quantitySoldChart (createChartData rows)) ! i
          = sum_list (map Quantity_Sold (filter (\<lambda>r. Product_Name r = products rows ! i) rows))
      \<and> chart_values (averageRevenueChart (createChartData rows)) ! i
          = js_div
              (sum_list (map Total_Revenue (filter (\<lambda>r. Product_Name r = products rows ! i) rows)))
              (sum_list (map Quantity_Sold (filter (\<lambda>r. Product_Name r = products rows ! i) rows)))
      \<and> chart_values (scatterPlotData (createChartData rows)) ! i
          = \<lparr>point_x = sum_list (map Quantity_Sold
                (filter (\<lambda>r. Product_Name r = products rows ! i) rows)),
             point_y = sum_list (map Total_Revenue
                (filter (\<lambda>r. Product_Name r = products rows ! i) rows))\<rparr>)
   \<and> labels (monthlyGrowthChart (createChartData rows)) = Some (months rows)
   \<and> length (chart_values (monthlyGrowthChart (createChartData rows))) = length (months rows)
   \<and> (\<forall>i < length (months rows).
        chart_values (monthlyGrowthChart (createChartData rows)) ! i
          = (if i = 0 then Fin 0
             else js_mul (js_div
               (js_sub
                 (sum_list (map Total_Revenue
                    (filter (\<lambda>r. prefix (months rows ! i) (Date r)) rows)))
                 (sum_list (map Total_Revenue
                    (filter (\<lambda>r. prefix (months rows ! (i - 1)) (Date r)) rows))))
               (sum_list (map Total_Revenue
                  (filter (\<lambda>r. prefix (months rows ! (i - 1)) (Date r)) rows))))
               (Fin 100)))
   \<and> labels (revenueOverTime (createChartData rows)) = Some (map Date rows)
   \<and> chart_values (revenueOverTime (createChartData rows)) = map Total_Revenue rows"
proof -
  have labs:
    "labels (productRevenueChart (createChartData rows)) = Some (products rows)"
    "labels (quantitySoldChart (createChartData rows)) = Some (products rows)"
    "labels (averageRevenueChart (createChartData rows)) = Some (products rows)"
    "labels (monthlyGrowthChart (createChartData rows)) = Some (months rows)"
    "labels (revenueOverTime (createChartData rows)) = Some (map Date rows)"
    by (simp_all add: createChartData_def dates_def)
  have lens:
    "length (chart_values (productRevenueChart (createChartData rows))) = length (products rows)"
    "length (chart_values (quantitySoldChart (createChartData rows))) = length (products rows)"
    "length (chart_values (averageRevenueChart (createChartData rows))) = length (products rows)"
    "length (chart_values (scatterPlotData (createChartData rows))) = length (products rows)"
    by (simp_all add: values_productRevenue values_quantitySold values_averageRevenue
        values_scatter)
  have lenm:
    "length (chart_values (monthlyGrowthChart (createChartData rows))) = length (months rows)"
    by (simp add: values_monthlyGrowth monthlyGrowth_def length_growth length_monthlyRevenue)
  have prods: "\<forall>i < length (products rows).
        chart_values (productRevenueChart (createChartData rows)) ! i
          = sum_list (map Total_Revenue (filter (\<lambda>r. Product_Name r = products rows ! i) rows))
      \<and> chart_values (quantitySoldChart (createChartData rows)) ! i
          = sum_list (map Quantity_Sold (filter (\<lambda>r. Product_Name r = products rows ! i) rows))
      \<and> chart_values (averageRevenueChart (createChartData rows)) ! i
          = js_div
              (sum_list (map Total_Revenue (filter (\<lambda>r. Product_Name r = products rows ! i) rows)))
              (sum_list (map Quantity_Sold (filter (\<lambda>r. Product_Name r = products rows ! i) rows)))
      \<and> chart_values (scatterPlotData (createChartData rows)) ! i
          = \<lparr>point_x = sum_list (map Quantity_Sold
                (filter (\<lambda>r. Product_Name r = products rows ! i) rows)),
             point_y = sum_list (map Total_Revenue
                (filter (\<lambda>r. Product_Name r = products rows ! i) rows))\<rparr>"
    by (simp add: values_productRevenue values_quantitySold values_averageRevenue
        values_scatter)
  have mons: "\<forall>i < length (months rows).
        chart_values (monthlyGrowthChart (createChartData rows)) ! i
          = (if i = 0 then Fin 0
             else js_mul (js_div
               (js_sub
                 (sum_list (map Total_Revenue
                    (filter (\<lambda>r. prefix (months rows ! i) (Date r)) rows)))
                 (sum_list (map Total_Revenue
                    (filter (\<lambda>r. prefix (months rows ! (i - 1)) (Date r)) rows))))
               (sum_list (map Total_Revenue
                  (filter (\<lambda>r. prefix (months rows ! (i - 1)) (Date r)) rows))))
               (Fin 100))"
  proof (intro allI impI)
    fix i
    assume i: "i < length (months rows)"
    then have "i < length (monthlyRevenue rows)" "i - 1 < length (months rows)"
      by (simp_all add: length_monthlyRevenue)
    then show "chart_values (monthlyGrowthChart (createChartData rows)) ! i
          = (if i = 0 then Fin 0
             else js_mul (js_div
               (js_sub
                 (sum_list (map Total_Revenue
                    (filter (\<lambda>r. prefix (months rows ! i) (Date r)) rows)))
                 (sum_list (map Total_Revenue
                    (filter (\<lambda>r. prefix (months rows ! (i - 1)) (Date r)) rows))))
               (sum_list (map Total_Revenue
                  (filter (\<lambda>r. prefix (months rows ! (i - 1)) (Date r)) rows))))
               (Fin 100))"
      using i by (simp add: values_monthlyGrowth monthlyGrowth_def growth_nth)
         (simp add: monthlyRevenue_eq)
  qed
  show ?thesis
    using labs lens lenm prods mons products_eq [of rows] values_revenueOverTime [of rows]
    by (intro conjI) assumption+
qed

theorem labels_and_values_aligned_witness:
  "products example_rows = [''A'', ''B'']
   \<and> chart_values (productRevenueChart (createChartData example_rows)) ! 1
       = sum_list (map Total_Revenue
           (filter (\<lambda>r. Product_Name r = products example_rows ! 1) example_rows))
   \<and> chart_values (productRevenueChart (createChartData example_rows)) ! 1 = Fin 50
   \<and> chart_values (averageRevenueChart (createChartData example_rows)) ! 1 = Fin 10
   \<and> months dayless_rows = [''1/2023'', ''2/2023'']
   \<and> chart_values (monthlyGrowthChart (createChartData dayless_rows)) ! 1
       = js_mul (js_div (js_sub (Fin 150) (Fin 120)) (Fin 120)) (Fin 100)"
proof -
  have p: "products example_rows = [''A'', ''B'']"
    by (simp add: evaluate example_rows_def)
  have v: "chart_values (productRevenueChart (createChartData example_rows)) ! 1 = Fin 50"
    "chart_values (averageRevenueChart (createChartData example_rows)) ! 1 = Fin 10"
    by (simp_all add: evaluate example_rows_def)
  have m: "months dayless_rows = [''1/2023'', ''2/2023'']"
    by (simp add: evaluate dayless_rows_def)
  have s: "sum_list (map Total_Revenue
              (filter (\<lambda>r. prefix ''1/2023'' (Date r)) dayless_rows)) = Fin 120"
    "sum_list (map Total_Revenue
              (filter (\<lambda>r. prefix ''2/2023'' (Date r)) dayless_rows)) = Fin 150"
    by (simp_all add: dayless_rows_def)
  have "1 < length (products example_rows)"
    by (simp add: p)
  with labels_and_values_aligned [of example_rows]
  have a: "chart_values (productRevenueChart (createChartData example_rows)) ! 1
       = sum_list (map Total_Revenue
           (filter (\<lambda>r. Product_Name r = products example_rows ! 1) example_rows))"
    by blast
  have "1 < length (months dayless_rows)"
    by (simp add: m)
  with labels_and_values_aligned [of dayless_rows]
  have "chart_values (monthlyGrowthChart (createChartData dayless_rows)) ! 1
          = (if (1::nat) = 0 then Fin 0
             else js_mul (js_div
               (js_sub
                 (sum_list (map Total_Revenue
                    (filter (\<lambda>r. prefix (months dayless_rows ! 1) (Date r)) dayless_rows)))
                 (sum_list (map Total_Revenue
                    (filter (\<lambda>r. prefix (months dayless_rows ! (1 - 1)) (Date r)) dayless_rows))))
               (sum_list (map Total_Revenue
                  (filter (\<lambda>r. prefix (months dayless_rows ! (1 - 1)) (Date r)) dayless_rows))))
               (Fin 100))"
    by blast
  then have b: "chart_values (monthlyGrowthChart (createChartData dayless_rows)) ! 1
       = js_mul (js_div (js_sub (Fin 150) (Fin 120)) (Fin 120)) (Fin 100)"
    by (simp only: m s nth_Cons_0 nth_Cons_Suc One_nat_def diff_Suc_Suc diff_zero
        nat.simps if_False)
  from p v m a b show ?thesis by blast
qed

subsection \<open>C5: total revenue is conserved\<close>

text \<open>
  C5 as stated fails, because the additions round. With the rows A \<open>10 ^ 16\<close>, B
  \<open>2\<close>, A \<open>1\<close> the revenue of product A is \<open>10 ^ 16\<close> (the sum
  \<open>10 ^ 16 + 1\<close> is a tie and rounds to \<open>10 ^ 16\<close>), so the product revenues add
  up to \<open>10 ^ 16 + 2\<close>; the revenues of the rows add up to \<open>10 ^ 16 + 3\<close>, and to
  \<open>10 ^ 16 + 4\<close> when that sum is itself taken in binary64.
\<close>

theorem revenue_not_conserved_by_rounding:
  "productRevenue_double rounding_rows = [Fin 10000000000000000, Fin 2]
   \<and> chart_values (revenueOverTime (createChartData rounding_rows))
       = [Fin 10000000000000000, Fin 2, Fin 1]
   \<and> sum_list (productRevenue_double rounding_rows) = Fin 10000000000000002
   \<and> sum_list (chart_values (revenueOverTime (createChartData rounding_rows)))
       = Fin 10000000000000003
   \<and> double_sum (productRevenue_double rounding_rows) = Fin 10000000000000002
   \<and> double_sum (chart_values (revenueOverTime (createChartData rounding_rows)))
       = Fin 10000000000000004
   \<and> sum_list (productRevenue_double rounding_rows)
       \<noteq> sum_list (chart_values (revenueOverTime (createChartData rounding_rows)))
   \<and> double_sum (productRevenue_double rounding_rows)
       \<noteq> double_sum (chart_values (revenueOverTime (createChartData rounding_rows)))"
proof -
  have p: "productRevenue_double rounding_rows = [Fin 10000000000000000, Fin 2]"
    by (simp add: productRevenue_double_def rounding_rows_def products_def new_Set_def
        Set_add_def zero_number_def rounding)
  have r: "chart_values (revenueOverTime (createChartData rounding_rows))
       = [Fin 10000000000000000, Fin 2, Fin 1]"
    by (simp add: values_revenueOverTime rounding_rows_def)
  have d1: "double_sum [Fin 10000000000000000, Fin 2] = Fin 10000000000000002"
    by (simp add: double_sum_def zero_number_def rounding)
  have d2: "double_sum [Fin 10000000000000000, Fin 2, Fin 1] = Fin 10000000000000004"
    by (simp add: double_sum_def zero_number_def rounding)
  show ?thesis
    by (simp add: p r d1 d2 zero_number_def)
qed

text \<open>
  C5, amended. For every row sequence whose revenues are whole numbers with absolute
  values adding up to less than \<open>2 ^ 53\<close>, no addition rounds: the product revenues
  are the exact sums, and they add up to the same number as the revenues of the rows,
  whether the two sums are taken exactly or in binary64.
\<close>

theorem revenue_conserved_without_rounding:
  assumes "list_all (\<lambda>r. whole (Total_Revenue r)) rows"
    and "sum_list (map (\<lambda>r. magnitude (Total_Revenue r)) rows) < 2 ^ 53"
  shows "productRevenue_double rows = chart_values (productRevenueChart (createChartData rows))
    \<and> sum_list (productRevenue_double rows)
        = sum_list (chart_values (revenueOverTime (createChartData rows)))
    \<and> double_sum (productRevenue_double rows)
        = double_sum (chart_values (revenueOverTime (createChartData rows)))"
proof -
  let ?group = "\<lambda>p. filter (\<lambda>r. Product_Name r = p) rows"
  let ?exact = "\<lambda>p. sum_list (map Total_Revenue (?group p))"
  let ?mag = "\<lambda>r. magnitude (Total_Revenue r)"
  have all: "list_all whole (map Total_Revenue rows)"
    using assms(1) by (simp add: list_all_iff)
  have group_whole: "list_all whole (map Total_Revenue (?group p))" for p
    using assms(1) by (simp add: list_all_iff)
  have group_small: "sum_list (map ?mag (?group p)) \<le> sum_list (map ?mag rows)" for p
    by (rule sum_list_filter_le) (rule magnitude_nonneg)
  have group_exact:
    "foldl (\<lambda>sum item. double_add sum (Total_Revenue item)) 0 (?group p) = ?exact p" for p
  proof -
    have "sum_list (map magnitude (map Total_Revenue (?group p))) < 2 ^ 53"
      using group_small [of p] assms(2) by (simp add: comp_def)
    from double_sum_whole [OF group_whole this] show ?thesis
      by (simp only: double_sum_map)
  qed
  have vals: "productRevenue_double rows = map ?exact (products rows)"
    by (simp add: productRevenue_double_def group_exact)
  then have first:
    "productRevenue_double rows = chart_values (productRevenueChart (createChartData rows))"
    by (simp add: values_productRevenue)
  have "Product_Name ` set rows \<subseteq> set (first_occurrences (map Product_Name rows))"
    by (simp add: set_first_occurrences)
  note groups = sum_list_groups [OF distinct_first_occurrences this]
  have exact: "sum_list (map ?exact (products rows)) = sum_list (map Total_Revenue rows)"
    by (simp only: products_eq groups)
  have second: "sum_list (productRevenue_double rows)
        = sum_list (chart_values (revenueOverTime (createChartData rows)))"
    by (simp only: vals exact values_revenueOverTime)
  have rows_sum: "double_sum (map Total_Revenue rows) = sum_list (map Total_Revenue rows)"
    using assms(2) by (intro double_sum_whole [OF all]) (simp add: comp_def)
  have values_whole: "list_all whole (map ?exact (products rows))"
    using sum_list_whole [OF group_whole] by (simp add: list_all_iff)
  have "sum_list (map magnitude (map ?exact (products rows)))
      \<le> sum_list (map (\<lambda>p. sum_list (map ?mag (?group p))) (products rows))"
    unfolding map_map comp_def
    by (rule sum_list_mono) (use sum_list_whole [OF group_whole] in \<open>simp add: comp_def\<close>)
  also have "\<dots> = sum_list (map ?mag rows)"
    by (simp only: products_eq groups)
  finally have "sum_list (map magnitude (map ?exact (products rows))) < 2 ^ 53"
    using assms(2) by simp
  from double_sum_whole [OF values_whole this]
  have "double_sum (map ?exact (products rows)) = sum_list (map ?exact (products rows))" .
  then have third: "double_sum (productRevenue_double rows)
        = double_sum (chart_values (revenueOverTime (createChartData rows)))"
    by (simp only: vals exact values_revenueOverTime rows_sum)
  from first second third show ?thesis by blast
qed

theorem revenue_conserved_without_rounding_witness:
  "list_all (\<lambda>r. whole (Total_Revenue r)) example_rows
   \<and> sum_list (map (\<lambda>r. magnitude (Total_Revenue r)) example_rows) = 350
   \<and> productRevenue_double example_rows = [Fin 300, Fin 50]
   \<and> sum_list (productRevenue_double example_rows) = Fin 350
   \<and> sum_list (chart_values (revenueOverTime (createChartData example_rows))) = Fin 350
   \<and> double_sum (productRevenue_double example_rows)
       = double_sum (chart_values (revenueOverTime (createChartData example_rows)))"
proof -
  have w: "list_all (\<lambda>r. whole (Total_Revenue r)) example_rows"
    by (simp add: example_rows_def whole_def)
  have m: "sum_list (map (\<lambda>r. magnitude (Total_Revenue r)) example_rows) = 350"
    by (simp add: example_rows_def magnitude_def)
  have lt: "sum_list (map (\<lambda>r. magnitude (Total_Revenue r)) example_rows) < 2 ^ 53"
    by (simp add: m)
  have v: "chart_values (productRevenueChart (createChartData example_rows))
      = [Fin 300, Fin 50]"
    "sum_list (chart_values (revenueOverTime (createChartData example_rows))) = Fin 350"
    by (simp_all add: evaluate example_rows_def)
  from revenue_conserved_without_rounding [OF w lt]
  have c: "productRevenue_double example_rows
        = chart_values (productRevenueChart (createChartData example_rows))"
    "sum_list (productRevenue_double example_rows)
        = sum_list (chart_values (revenueOverTime (createChartData example_rows)))"
    "double_sum (productRevenue_double example_rows)
        = double_sum (chart_values (revenueOverTime (createChartData example_rows)))"
    by blast+
  from c(1) v(1) have p: "productRevenue_double example_rows = [Fin 300, Fin 50]"
    by (rule trans)
  from c(2) v(2) have s: "sum_list (productRevenue_double example_rows) = Fin 350"
    by (rule trans)
  from w m p s v(2) c(3) show ?thesis
    by blast
qed

subsection \<open>C6: the scatter points repeat the two bar charts\<close>

text \<open>
  C6. For every row sequence and every index \<open>i\<close> into the distinct products, the
  scatter point \<open>i\<close> has the \<open>i\<close>-th value of the quantity chart as \<open>x\<close> and the
  \<open>i\<close>-th value of the product revenue chart as \<open>y\<close>, although each is computed by
  a filter and reduce of its own.
\<close>

theorem scatter_points_match:
  "length (chart_values (scatterPlotData (createChartData rows))) = length (products rows)
   \<and> length (chart_values (quantitySoldChart (createChartData rows))) = length (products rows)
   \<and> length (chart_values (productRevenueChart (createChartData rows))) = length (products rows)
   \<and> (\<forall>i < length (products rows).
         point_x (chart_values (scatterPlotData (createChartData rows)) ! i)
           = chart_values (quantitySoldChart (createChartData rows)) ! i
       \<and> point_y (chart_values (scatterPlotData (createChartData rows)) ! i)
           = chart_values (productRevenueChart (createChartData rows)) ! i)"
  by (simp add: values_scatter values_quantitySold values_productRevenue)

theorem scatter_points_match_witness:
  "length (products example_rows) = 2
   \<and> point_x (chart_values (scatterPlotData (createChartData example_rows)) ! 0)
       = chart_values (quantitySoldChart (createChartData example_rows)) ! 0
   \<and> point_y (chart_values (scatterPlotData (createChartData example_rows)) ! 0)
       = chart_values (productRevenueChart (createChartData example_rows)) ! 0
   \<and> chart_values (scatterPlotData (createChartData example_rows)) ! 0
       = \<lparr>point_x = Fin 30, point_y = Fin 300\<rparr>"
proof -
  have n: "length (products example_rows) = 2"
    by (simp add: evaluate example_rows_def)
  have v: "chart_values (scatterPlotData (createChartData example_rows)) ! 0
       = \<lparr>point_x = Fin 30, point_y = Fin 300\<rparr>"
    by (simp add: evaluate example_rows_def)
  have "0 < length (products example_rows)"
    by (simp add: n)
  with scatter_points_match [of example_rows]
  have "point_x (chart_values (scatterPlotData (createChartData example_rows)) ! 0)
       = chart_values (quantitySoldChart (createChartData example_rows)) ! 0
   \<and> point_y (chart_values (scatterPlotData (createChartData example_rows)) ! 0)
       = chart_values (productRevenueChart (createChartData example_rows)) ! 0"
    by blast
  with n v show ?thesis by simp
qed

subsection \<open>C7: the empty row sequence, and the rows on which the pipeline returns\<close>




subsection \<open>C8: the upload route\<close>




subsection \<open>C9: a file of another extension\<close>

text \<open>
  C9 as stated fails for a name without a dot. The file named \<open>csv\<close> has no
  extension, so its extension is none of csv, xls and xlsx; but \<open>split(".").pop()\<close>
  of a name without a dot is the whole name, so the file is handed to the CSV parser and
  the stored \<open>data\<close> is replaced by what the parser returns.
\<close>

theorem dotless_name_is_parsed:
  "extension_of ''csv'' = []
   \<and> toLowerCase (extension_of ''csv'') \<notin> {''csv'', ''xls'', ''xlsx''}
   \<and> handleFileChange (Some \<lparr>name = ''csv'', contents = ()\<rparr>)
       = Some (Papa_parse \<lparr>name = ''csv'', contents = ()\<rparr>)
   \<and> file_selected (\<lambda>f. Some [1::nat]) (\<lambda>f. Some [2])
        (Some \<lparr>name = ''csv'', contents = ()\<rparr>) (Some [0]) = Some [1]"
  by (simp add: extension_of_def file_selected_def handleFileChange_def callback_def
      fileExtension_def toLowerCase_def toLowerCase_char_def)

text \<open>
  C9, amended. When the selected file's name has a dot and its extension, lower-cased, is
  none of csv, xls and xlsx, or the name has no dot and, lower-cased, is itself none of
  csv, xls and xlsx, then \<open>handleFileChange\<close> starts no parse: no rows are produced
  and the stored \<open>data\<close> stays what it was.
\<close>

theorem other_extension_no_action:
  "(CHR ''.'' \<in> set (name f)
      \<and> toLowerCase (extension_of (name f)) \<notin> {''csv'', ''xls'', ''xlsx''} \<longrightarrow>
      handleFileChange (Some f) = None \<and> file_selected papa xlsx (Some f) d = d)
   \<and> (CHR ''.'' \<notin> set (name f)
      \<and> toLowerCase (name f) \<notin> {''csv'', ''xls'', ''xlsx''} \<longrightarrow>
      handleFileChange (Some f) = None \<and> file_selected papa xlsx (Some f) d = d)"
proof -
  have general: "handleFileChange (Some f) = None \<and> file_selected papa xlsx (Some f) d = d"
    if "fileExtension f \<notin> {''csv'', ''xls'', ''xlsx''}"
    using that by (simp add: handleFileChange_def file_selected_def)
  show ?thesis
    using general fileExtension_with_dot [of f] fileExtension_without_dot [of f]
    by metis
qed

theorem other_extension_no_action_witness:
  "extension_of ''sales.2023.TXT'' = ''TXT''
   \<and> toLowerCase ''TXT'' = ''txt''
   \<and> handleFileChange (Some \<lparr>name = ''sales.2023.TXT'', contents = ()\<rparr>) = None
   \<and> file_selected (\<lambda>f. Some [1::nat]) (\<lambda>f. Some [2])
        (Some \<lparr>name = ''sales.2023.TXT'', contents = ()\<rparr>) (Some [0]) = Some [0]
   \<and> toLowerCase ''README'' = ''readme''
   \<and> handleFileChange (Some \<lparr>name = ''README'', contents = ()\<rparr>) = None
   \<and> file_selected (\<lambda>f. Some [1::nat]) (\<lambda>f. Some [2])
        (Some \<lparr>name = ''README'', contents = ()\<rparr>) None = None"
proof -
  let ?papa = "\<lambda>f :: unit File. Some [1::nat]" and ?xlsx = "\<lambda>f :: unit File. Some [2::nat]"
  let ?a = "\<lparr>name = ''sales.2023.TXT'', contents = ()\<rparr>"
  let ?b = "\<lparr>name = ''README'', contents = ()\<rparr>"
  have x: "extension_of ''sales.2023.TXT'' = ''TXT''"
    by (simp add: extension_of_def)
  have l: "toLowerCase ''TXT'' = ''txt''" "toLowerCase ''README'' = ''readme''"
    by (simp_all add: toLowerCase_def toLowerCase_char_def)
  have h1: "CHR ''.'' \<in> set (name ?a)
      \<and> toLowerCase (extension_of (name ?a)) \<notin> {''csv'', ''xls'', ''xlsx''}"
    by (simp add: x l)
  have h2: "CHR ''.'' \<notin> set (name ?b) \<and> toLowerCase (name ?b) \<notin> {''csv'', ''xls'', ''xlsx''}"
    by (simp add: l)
  from h1 other_extension_no_action [of ?a ?papa ?xlsx "Some [0]"]
  have a: "handleFileChange (Some ?a) = None
      \<and> file_selected ?papa ?xlsx (Some ?a) (Some [0]) = Some [0]"
    by blast
  from h2 other_extension_no_action [of ?b ?papa ?xlsx None]
  have b: "handleFileChange (Some ?b) = None \<and> file_selected ?papa ?xlsx (Some ?b) None = None"
    by blast
  from x l a b show ?thesis by blast
qed

subsection \<open>C10: the scatter chart has no labels\<close>

text \<open>
  C10. For every row sequence, the scatter chart is the one chart whose object has no
  \<open>labels\<close>: it holds only its \<open>datasets\<close>, whose data are the points of
  \<open>revenueVsQuantity\<close>. Each of the other five charts has a labels sequence.
\<close>

theorem scatter_has_no_labels:
  "labels (scatterPlotData (createChartData rows)) = None
   \<and> map data (datasets (scatterPlotData (createChartData rows))) = [revenueVsQuantity rows]
   \<and> labels (revenueOverTime (createChartData rows)) = Some (dates rows)
   \<and> labels (productRevenueChart (createChartData rows)) = Some (products rows)
   \<and> labels (quantitySoldChart (createChartData rows)) = Some (products rows)
   \<and> labels (averageRevenueChart (createChartData rows)) = Some (products rows)
   \<and> labels (monthlyGrowthChart (createChartData rows)) = Some (months rows)"
  by (simp add: createChartData_def)

theorem scatter_has_no_labels_witness:
  "labels (scatterPlotData (createChartData example_rows)) = None
   \<and> map data (datasets (scatterPlotData (createChartData example_rows)))
       = [[\<lparr>point_x = Fin 30, point_y = Fin 300\<rparr>, \<lparr>point_x = Fin 5, point_y = Fin 50\<rparr>]]
   \<and> labels (productRevenueChart (createChartData example_rows)) = Some [''A'', ''B'']"
proof -
  have "revenueVsQuantity example_rows
      = [\<lparr>point_x = Fin 30, point_y = Fin 300\<rparr>, \<lparr>point_x = Fin 5, point_y = Fin 50\<rparr>]"
    "products example_rows = [''A'', ''B'']"
    by (simp_all add: evaluate example_rows_def)
  with scatter_has_no_labels [of example_rows] show ?thesis by simp
qed

end
